theory Spec2Isabelle
  imports Complex_Main "HOL-Library.AList" "HOL-Library.Sublist"
begin

section \<open>Values of the Python program\<close>

text \<open>
  Every value the two scripts handle comes out of a JSON document: the field maps the
  record store returns and the document read back from the \<open>Compressed JSON\<close> field.
  A Python \<open>dict\<close> is an association list read through \<open>map_of\<close> (the first binding of
  a key is the binding), a Python \<open>float\<close> is the rational number it denotes (NaN and the
  infinities are never sent by the store), and a \<open>str\<close> is the list of its code
  points, for text whose code points are below 256 (ASCII and Latin-1), which is what
  a \<open>char\<close> holds.
\<close>

datatype json =
    JNull
  | JBool bool
  | JInt int
  | JFloat rat
  | JStr string
  | JArr "json list"
  | JObj "(string \<times> json) list"

type_synonym fields = "(string \<times> json) list"

datatype exn = AttributeError | TypeError | ValueError | KeyError

text \<open>Truth value of a Python object in a condition (\<open>if x:\<close>).\<close>

fun py_truthy :: "json \<Rightarrow> bool" where
  "py_truthy JNull = False"
| "py_truthy (JBool b) = b"
| "py_truthy (JInt i) = (i \<noteq> 0)"
| "py_truthy (JFloat r) = (r \<noteq> 0)"
| "py_truthy (JStr s) = (s \<noteq> [])"
| "py_truthy (JArr xs) = (xs \<noteq> [])"
| "py_truthy (JObj kvs) = (kvs \<noteq> [])"

text \<open>\<open>d.get(k, default)\<close>: only a dict has the method.\<close>

fun py_get :: "json \<Rightarrow> string \<Rightarrow> json \<Rightarrow> exn + json" where
  "py_get (JObj kvs) k dflt = Inr (case map_of kvs k of Some v \<Rightarrow> v | None \<Rightarrow> dflt)"
| "py_get _ k dflt = Inl AttributeError"

text \<open>
  \<open>for x in v\<close>: a list gives its elements, a string its characters, a dict its keys;
  \<open>None\<close>, booleans and numbers are not iterable.
\<close>

fun py_iter :: "json \<Rightarrow> exn + json list" where
  "py_iter (JArr xs) = Inr xs"
| "py_iter (JStr s) = Inr (map (\<lambda>c. JStr [c]) s)"
| "py_iter (JObj kvs) = Inr (map JStr (remdups (map fst kvs)))"
| "py_iter _ = Inl TypeError"

text \<open>The number a value stands for in a comparison with a number; \<open>bool\<close> is an \<open>int\<close>.\<close>

fun py_num :: "json \<Rightarrow> rat option" where
  "py_num (JInt i) = Some (of_int i)"
| "py_num (JFloat r) = Some r"
| "py_num (JBool b) = Some (if b then 1 else 0)"
| "py_num _ = None"

subsection \<open>Strings\<close>

definition is_digit :: "char \<Rightarrow> bool" where
  "is_digit c = (c \<in> set ''0123456789'')"

definition digit_val :: "char \<Rightarrow> nat" where
  "digit_val c = of_char c - 48"

text \<open>
  The upper-case letters below 256 and their lower-case letters: A to Z, and the
  letters of Latin-1 from 0xC0 to 0xDE but the multiplication sign 0xD7.
\<close>

definition upper_letters :: string where
  "upper_letters =
     ''ABCDEFGHIJKLMNOPQRSTUVWXYZ'' @
     [CHR 0xC0, CHR 0xC1, CHR 0xC2, CHR 0xC3, CHR 0xC4, CHR 0xC5, CHR 0xC6, CHR
      0xC7, CHR 0xC8, CHR 0xC9, CHR 0xCA, CHR 0xCB, CHR 0xCC, CHR 0xCD, CHR 0xCE,
      CHR 0xCF, CHR 0xD0, CHR 0xD1, CHR 0xD2, CHR 0xD3, CHR 0xD4, CHR 0xD5, CHR
      0xD6, CHR 0xD8, CHR 0xD9, CHR 0xDA, CHR 0xDB, CHR 0xDC, CHR 0xDD, CHR 0xDE]"

definition lower_letters :: string where
  "lower_letters =
     ''abcdefghijklmnopqrstuvwxyz'' @
     [CHR 0xE0, CHR 0xE1, CHR 0xE2, CHR 0xE3, CHR 0xE4, CHR 0xE5, CHR 0xE6, CHR
      0xE7, CHR 0xE8, CHR 0xE9, CHR 0xEA, CHR 0xEB, CHR 0xEC, CHR 0xED, CHR 0xEE,
      CHR 0xEF, CHR 0xF0, CHR 0xF1, CHR 0xF2, CHR 0xF3, CHR 0xF4, CHR 0xF5, CHR
      0xF6, CHR 0xF8, CHR 0xF9, CHR 0xFA, CHR 0xFB, CHR 0xFC, CHR 0xFD, CHR 0xFE]"

definition lower_char :: "char \<Rightarrow> char" where
  "lower_char c =
     (case map_of (zip upper_letters lower_letters) c of
        Some l \<Rightarrow> l
      | None \<Rightarrow> c)"

text \<open>\<open>s.lower()\<close>\<close>

definition py_lower :: "string \<Rightarrow> string" where
  "py_lower s = map lower_char s"

text \<open>\<open>sub in s\<close> for two strings: \<open>sub\<close> occurs in \<open>s\<close> as a contiguous block.\<close>

fun py_in :: "string \<Rightarrow> string \<Rightarrow> bool" where
  "py_in sub [] = (sub = [])"
| "py_in sub (c # cs) = (prefix sub (c # cs) \<or> py_in sub cs)"

text \<open>\<open>s.split(sep)\<close> for a separator of one character.\<close>

fun split_on :: "char \<Rightarrow> string \<Rightarrow> string list" where
  "split_on sep [] = [[]]"
| "split_on sep (c # cs) =
     (if c = sep then [] # split_on sep cs
      else (case split_on sep cs of
              [] \<Rightarrow> [[c]]
            | w # ws \<Rightarrow> (c # w) # ws))"

text \<open>The value of a string of decimal digits, most significant first.\<close>

definition digits_val :: "string \<Rightarrow> nat" where
  "digits_val s = foldl (\<lambda>acc c. 10 * acc + digit_val c) 0 s"

section \<open>Dates\<close>

text \<open>
  \<open>datetime.strptime(s, "%Y-%m-%d")\<close> of the standard library: the year is four digits,
  the month one or two digits from 1 to 12, the day one or two digits (or a space and a
  digit) from 1 to 31; the whole string must match and the date must exist. A value that
  is not a string raises TypeError, a string that does not parse ValueError.
\<close>

record date =
  year :: nat
  month :: nat
  day :: nat

definition is_leap :: "nat \<Rightarrow> bool" where
  "is_leap y = (y mod 4 = 0 \<and> (y mod 100 \<noteq> 0 \<or> y mod 400 = 0))"

definition days_in_month :: "nat \<Rightarrow> nat \<Rightarrow> nat" where
  "days_in_month y m =
     (if m = 2 then (if is_leap y then 29 else 28)
      else if m \<in> {4, 6, 9, 11} then 30 else 31)"

definition year_token :: "string \<Rightarrow> nat option" where
  "year_token t = (if length t = 4 \<and> list_all is_digit t then Some (digits_val t) else None)"

definition month_token :: "string \<Rightarrow> nat option" where
  "month_token t =
     (if (length t = 1 \<or> length t = 2) \<and> list_all is_digit t
         \<and> 1 \<le> digits_val t \<and> digits_val t \<le> 12
      then Some (digits_val t) else None)"

definition day_token :: "string \<Rightarrow> nat option" where
  "day_token t =
     (if (length t = 1 \<or> length t = 2) \<and> list_all is_digit t
         \<and> 1 \<le> digits_val t \<and> digits_val t \<le> 31
      then Some (digits_val t)
      else (case t of
              [sp, d] \<Rightarrow> (if sp = CHR '' '' \<and> is_digit d \<and> d \<noteq> CHR ''0''
                           then Some (digit_val d) else None)
            | _ \<Rightarrow> None))"

definition strptime_ymd :: "string \<Rightarrow> date option" where
  "strptime_ymd s =
     (case split_on CHR ''-'' s of
        [ty, tm, td] \<Rightarrow>
          (case (year_token ty, month_token tm, day_token td) of
             (Some y, Some m, Some d) \<Rightarrow>
               (if 1 \<le> y \<and> d \<le> days_in_month y m
                then Some \<lparr>year = y, month = m, day = d\<rparr> else None)
           | _ \<Rightarrow> None)
      | _ \<Rightarrow> None)"

fun strptime :: "json \<Rightarrow> exn + date" where
  "strptime (JStr s) = (case strptime_ymd s of Some d \<Rightarrow> Inr d | None \<Rightarrow> Inl ValueError)"
| "strptime _ = Inl TypeError"

section \<open>Total experience (\<open>calculate_total_experience\<close>)\<close>

text \<open>
  The body of the \<open>try\<close> block for one job. \<open>datetime.now()\<close> is the parameter \<open>now\<close>.
\<close>

definition month_diff :: "date \<Rightarrow> date \<Rightarrow> int" where
  "month_diff start_date end_date =
     (int (year end_date) - int (year start_date)) * 12
       + (int (month end_date) - int (month start_date))"

definition job_try :: "date \<Rightarrow> json \<Rightarrow> exn + int" where
  "job_try now job =
     (case py_get job ''Start'' JNull of
        Inl e \<Rightarrow> Inl e
      | Inr start_str \<Rightarrow>
          (case strptime start_str of
             Inl e \<Rightarrow> Inl e
           | Inr start_date \<Rightarrow>
               (case py_get job ''End'' JNull of
                  Inl e \<Rightarrow> Inl e
                | Inr end_date_str \<Rightarrow>
                    (case (if py_truthy end_date_str then strptime end_date_str else Inr now) of
                       Inl e \<Rightarrow> Inl e
                     | Inr end_date \<Rightarrow> Inr (month_diff start_date end_date)))))"

text \<open>
  One turn of the loop: \<open>except (ValueError, TypeError): continue\<close> skips the job (\<open>None\<close>),
  any other exception leaves the function.
\<close>

definition job_months :: "date \<Rightarrow> json \<Rightarrow> exn + int option" where
  "job_months now job =
     (case job_try now job of
        Inr m \<Rightarrow> Inr (Some m)
      | Inl ValueError \<Rightarrow> Inr None
      | Inl TypeError \<Rightarrow> Inr None
      | Inl e \<Rightarrow> Inl e)"

fun total_months_loop :: "date \<Rightarrow> json list \<Rightarrow> int \<Rightarrow> exn + int" where
  "total_months_loop now [] total_months = Inr total_months"
| "total_months_loop now (job # jobs) total_months =
     (case job_months now job of
        Inl e \<Rightarrow> Inl e
      | Inr None \<Rightarrow> total_months_loop now jobs total_months
      | Inr (Some m) \<Rightarrow> total_months_loop now jobs (total_months + m))"

text \<open>
  The result is \<open>total_months / 12\<close>, a float in Python. The quotient of an \<open>int\<close> by 12 is
  correctly rounded, so it is at least 4.0 exactly when the rational quotient is at least
  4; the model keeps the rational.
\<close>

definition calculate_total_experience :: "date \<Rightarrow> json \<Rightarrow> exn + rat" where
  "calculate_total_experience now experience_list =
     (case py_iter experience_list of
        Inl e \<Rightarrow> Inl e
      | Inr jobs \<Rightarrow>
          (case total_months_loop now jobs 0 of
             Inl e \<Rightarrow> Inl e
           | Inr total_months \<Rightarrow> Inr (of_int total_months / 12)))"

section \<open>Shortlisting (\<open>evaluate_shortlisting\<close>)\<close>

definition TIER_1_COMPANIES :: "string set" where
  "TIER_1_COMPANIES =
     {''google'', ''meta'', ''openai'', ''apple'', ''amazon'', ''netflix'', ''microsoft''}"

definition APPROVED_LOCATIONS :: "string list" where
  "APPROVED_LOCATIONS =
     [''us'', ''united states'', ''canada'', ''uk'', ''united kingdom'', ''germany'', ''india'']"

text \<open>\<open>v.lower()\<close>: only a string has the method.\<close>

fun py_str_lower :: "json \<Rightarrow> exn + string" where
  "py_str_lower (JStr s) = Inr (py_lower s)"
| "py_str_lower _ = Inl AttributeError"

text \<open>\<open>any(f(x) for x in xs)\<close>: stops at the first true element, raises what \<open>f\<close> raises.\<close>

fun py_any :: "('a \<Rightarrow> exn + bool) \<Rightarrow> 'a list \<Rightarrow> exn + bool" where
  "py_any f [] = Inr False"
| "py_any f (x # xs) =
     (case f x of
        Inl e \<Rightarrow> Inl e
      | Inr b \<Rightarrow> (if b then Inr True else py_any f xs))"

text \<open>\<open>v <= c\<close> and \<open>v >= c\<close> against a number: only numbers compare.\<close>

definition py_le :: "json \<Rightarrow> rat \<Rightarrow> exn + bool" where
  "py_le v c = (case py_num v of Some x \<Rightarrow> Inr (x \<le> c) | None \<Rightarrow> Inl TypeError)"

definition py_ge :: "json \<Rightarrow> rat \<Rightarrow> exn + bool" where
  "py_ge v c = (case py_num v of Some x \<Rightarrow> Inr (c \<le> x) | None \<Rightarrow> Inl TypeError)"

text \<open>\<open>job.get("Company", "").lower() in TIER_1_COMPANIES\<close>\<close>

definition job_at_tier_1 :: "json \<Rightarrow> exn + bool" where
  "job_at_tier_1 job =
     (case py_get job ''Company'' (JStr []) of
        Inl e \<Rightarrow> Inl e
      | Inr company \<Rightarrow>
          (case py_str_lower company of
             Inl e \<Rightarrow> Inl e
           | Inr c \<Rightarrow> Inr (c \<in> TIER_1_COMPANIES)))"

definition worked_at_tier_1 :: "json \<Rightarrow> exn + bool" where
  "worked_at_tier_1 experience_list =
     (case py_iter experience_list of
        Inl e \<Rightarrow> Inl e
      | Inr jobs \<Rightarrow> py_any job_at_tier_1 jobs)"

text \<open>
  Rule 2. \<open>salary.get("Preferred Rate", float('inf'))\<close>: the default is no JSON value
  and is \<open>None\<close> here; it is above every bound. \<open>and\<close> evaluates its right side only
  when the left side holds.
\<close>

fun py_get_or_inf :: "json \<Rightarrow> string \<Rightarrow> exn + json option" where
  "py_get_or_inf (JObj kvs) k = Inr (map_of kvs k)"
| "py_get_or_inf _ k = Inl AttributeError"

definition rate_ok :: "json option \<Rightarrow> exn + bool" where
  "rate_ok rate =
     (case rate of
        None \<Rightarrow> Inr False
      | Some r \<Rightarrow> (if r = JNull then Inr False else py_le r 100))"

definition availability_ok :: "json \<Rightarrow> exn + bool" where
  "availability_ok availability =
     (if availability = JNull then Inr False else py_ge availability 20)"

definition compensation_ok :: "json option \<Rightarrow> json \<Rightarrow> exn + bool" where
  "compensation_ok rate availability =
     (case rate_ok rate of
        Inl e \<Rightarrow> Inl e
      | Inr b \<Rightarrow> (if b then availability_ok availability else Inr False))"

text \<open>Rule 3: \<open>any(loc in location for loc in APPROVED_LOCATIONS)\<close>\<close>

definition location_ok :: "string \<Rightarrow> bool" where
  "location_ok location = list_ex (\<lambda>loc. py_in loc location) APPROVED_LOCATIONS"

text \<open>
  The values the f-string of the reason interpolates; how Python prints them is not
  modelled.
\<close>

record reason =
  reason_exp_years :: rat
  reason_tier_1 :: bool
  reason_rate :: "json option"
  reason_availability :: json
  reason_location :: json

text \<open>
  The three rules, in the order of the code. The result is \<open>Some reason\<close> when the
  condition of the final \<open>if\<close> holds and \<open>None\<close> when it does not.
\<close>

definition shortlist_rules :: "date \<Rightarrow> json \<Rightarrow> exn + reason option" where
  "shortlist_rules now applicant_json =
     (case py_get applicant_json ''experience'' (JArr []) of
        Inl e \<Rightarrow> Inl e
      | Inr experience_list \<Rightarrow>
     (case calculate_total_experience now experience_list of
        Inl e \<Rightarrow> Inl e
      | Inr total_exp_years \<Rightarrow>
     (case worked_at_tier_1 experience_list of
        Inl e \<Rightarrow> Inl e
      | Inr tier_1 \<Rightarrow>
     (case py_get applicant_json ''salary'' (JObj []) of
        Inl e \<Rightarrow> Inl e
      | Inr salary \<Rightarrow>
     (case py_get_or_inf salary ''Preferred Rate'' of
        Inl e \<Rightarrow> Inl e
      | Inr rate \<Rightarrow>
     (case py_get salary ''Availability (hrs/wk)'' (JInt 0) of
        Inl e \<Rightarrow> Inl e
      | Inr availability \<Rightarrow>
     (case compensation_ok rate availability of
        Inl e \<Rightarrow> Inl e
      | Inr comp_ok \<Rightarrow>
     (case py_get applicant_json ''personal'' (JObj []) of
        Inl e \<Rightarrow> Inl e
      | Inr personal \<Rightarrow>
     (case py_get personal ''Location'' (JStr []) of
        Inl e \<Rightarrow> Inl e
      | Inr loc \<Rightarrow>
     (case py_str_lower loc of
        Inl e \<Rightarrow> Inl e
      | Inr location \<Rightarrow>
          (if (4 \<le> total_exp_years \<or> tier_1) \<and> comp_ok \<and> location_ok location
           then Inr (Some \<lparr>reason_exp_years = total_exp_years, reason_tier_1 = tier_1,
                           reason_rate = rate, reason_availability = availability,
                           reason_location =
                             (case py_get personal ''Location'' JNull of
                                Inr v \<Rightarrow> v
                              | Inl e \<Rightarrow> JNull)\<rparr>)
           else Inr None)))))))))))"

text \<open>
  A record of the store and a row of the Shortlisted Leads table. \<open>json.dumps\<close> is the
  parameter \<open>dumps\<close>.
\<close>

record airtable_record =
  rec_id :: string
  rec_fields :: fields

record lead =
  lead_applicant :: "string list"
  lead_compressed_json :: string
  lead_score_reason :: reason

definition evaluate_shortlisting ::
  "(json \<Rightarrow> string) \<Rightarrow> date \<Rightarrow> airtable_record \<Rightarrow> json \<Rightarrow> lead list \<Rightarrow> exn + lead list" where
  "evaluate_shortlisting dumps now applicant_record applicant_json leads =
     (case shortlist_rules now applicant_json of
        Inl e \<Rightarrow> Inl e
      | Inr None \<Rightarrow> Inr leads
      | Inr (Some reason) \<Rightarrow>
          Inr (leads @ [\<lparr>lead_applicant = [rec_id applicant_record],
                         lead_compressed_json = dumps applicant_json,
                         lead_score_reason = reason\<rparr>]))"

section \<open>What the specification says of the shortlist\<close>

text \<open>
  The document the compressor builds (\<open>final_json\<close>): three keys, the sections being the
  field maps of the store.
\<close>

definition build_json :: "fields \<Rightarrow> fields list \<Rightarrow> fields \<Rightarrow> json" where
  "build_json personal_data experience_data salary_data =
     JObj [(''personal'', JObj personal_data),
           (''experience'', JArr (map JObj experience_data)),
           (''salary'', JObj salary_data)]"

text \<open>
  The months one entry counts for: its \<open>Start\<close> is a date, and its \<open>End\<close> is a date or
  is empty (absent, null, or any other value Python takes for false), which stands for
  the current date. Every other entry counts for nothing.
\<close>

definition start_date_of :: "fields \<Rightarrow> date option" where
  "start_date_of job =
     (case map_of job ''Start'' of
        Some (JStr s) \<Rightarrow> strptime_ymd s
      | _ \<Rightarrow> None)"

definition end_date_of :: "date \<Rightarrow> fields \<Rightarrow> date option" where
  "end_date_of now job =
     (case map_of job ''End'' of
        None \<Rightarrow> Some now
      | Some v \<Rightarrow>
          (if py_truthy v then (case v of JStr s \<Rightarrow> strptime_ymd s | _ \<Rightarrow> None)
           else Some now))"

definition counted_months :: "date \<Rightarrow> fields \<Rightarrow> int option" where
  "counted_months now job =
     (case start_date_of job of
        None \<Rightarrow> None
      | Some s \<Rightarrow>
          (case end_date_of now job of
             None \<Rightarrow> None
           | Some e \<Rightarrow> Some (month_diff s e)))"

definition spec_total_months :: "date \<Rightarrow> fields list \<Rightarrow> int" where
  "spec_total_months now jobs =
     sum_list (map (\<lambda>job. case counted_months now job of Some m \<Rightarrow> m | None \<Rightarrow> 0) jobs)"

text \<open>The three rules, as the specification words them.\<close>

definition spec_tier_1 :: "fields list \<Rightarrow> bool" where
  "spec_tier_1 experience =
     list_ex (\<lambda>job. case map_of job ''Company'' of
                      Some (JStr c) \<Rightarrow> py_lower c \<in> TIER_1_COMPANIES
                    | _ \<Rightarrow> False) experience"

definition spec_experience_rule :: "date \<Rightarrow> fields list \<Rightarrow> bool" where
  "spec_experience_rule now experience =
     (4 \<le> (of_int (spec_total_months now experience) :: rat) / 12 \<or> spec_tier_1 experience)"

definition spec_compensation_rule :: "fields \<Rightarrow> bool" where
  "spec_compensation_rule salary =
     ((case map_of salary ''Preferred Rate'' of
         None \<Rightarrow> False
       | Some r \<Rightarrow> (case py_num r of Some x \<Rightarrow> x \<le> 100 | None \<Rightarrow> False))
      \<and> (case map_of salary ''Availability (hrs/wk)'' of
           None \<Rightarrow> False
         | Some a \<Rightarrow> (case py_num a of Some x \<Rightarrow> 20 \<le> x | None \<Rightarrow> False)))"

definition spec_location_rule :: "fields \<Rightarrow> bool" where
  "spec_location_rule personal =
     (case map_of personal ''Location'' of
        Some (JStr l) \<Rightarrow> list_ex (\<lambda>a. sublist a (py_lower l)) APPROVED_LOCATIONS
      | _ \<Rightarrow> False)"

text \<open>
  The types of the data model: \<open>Location\<close> and \<open>Company\<close> are text, \<open>Preferred Rate\<close> and
  \<open>Availability (hrs/wk)\<close> are numbers; each may be missing, and a number may be null.
\<close>

definition is_text :: "json option \<Rightarrow> bool" where
  "is_text v = (case v of None \<Rightarrow> True | Some (JStr s) \<Rightarrow> True | Some _ \<Rightarrow> False)"

definition is_numeric :: "json option \<Rightarrow> bool" where
  "is_numeric v =
     (case v of None \<Rightarrow> True | Some JNull \<Rightarrow> True | Some x \<Rightarrow> py_num x \<noteq> None)"

definition well_typed :: "fields \<Rightarrow> fields list \<Rightarrow> fields \<Rightarrow> bool" where
  "well_typed personal experience salary =
     (is_text (map_of personal ''Location'')
      \<and> list_all (\<lambda>job. is_text (map_of job ''Company'')) experience
      \<and> is_numeric (map_of salary ''Preferred Rate'')
      \<and> is_numeric (map_of salary ''Availability (hrs/wk)''))"

text \<open>An entry that does not make the evaluation read the clock.\<close>

definition job_ended :: "json \<Rightarrow> bool" where
  "job_ended job =
     (case job of
        JObj kvs \<Rightarrow> (case map_of kvs ''End'' of Some v \<Rightarrow> py_truthy v | None \<Rightarrow> False)
      | _ \<Rightarrow> True)"

definition all_jobs_ended :: "json \<Rightarrow> bool" where
  "all_jobs_ended applicant_json =
     (case py_get applicant_json ''experience'' (JArr []) of
        Inl e \<Rightarrow> True
      | Inr experience_list \<Rightarrow>
          (case py_iter experience_list of
             Inl e \<Rightarrow> True
           | Inr jobs \<Rightarrow> list_all job_ended jobs))"

text \<open>The reason a lead carries, from the sections of the document.\<close>

definition spec_reason :: "date \<Rightarrow> fields \<Rightarrow> fields list \<Rightarrow> fields \<Rightarrow> reason" where
  "spec_reason now personal experience salary =
     \<lparr>reason_exp_years = of_int (spec_total_months now experience) / 12,
      reason_tier_1 = spec_tier_1 experience,
      reason_rate = map_of salary ''Preferred Rate'',
      reason_availability =
        (case map_of salary ''Availability (hrs/wk)'' of Some v \<Rightarrow> v | None \<Rightarrow> JInt 0),
      reason_location = (case map_of personal ''Location'' of Some v \<Rightarrow> v | None \<Rightarrow> JNull)\<rparr>"

section \<open>The LLM response (\<open>parse_llm_response\<close>)\<close>

text \<open>
  \<open>s.strip()\<close> removes the white space of both ends: the characters \<open>str.isspace\<close> holds
  of, which below 256 are the blank, 0x09 to 0x0D, 0x1C to 0x1F, 0x85 and 0xA0.
  \<open>s.replace(old, "")\<close> removes every occurrence of \<open>old\<close>, from the left.
\<close>

definition is_space :: "char \<Rightarrow> bool" where
  "is_space c =
     (c \<in> {CHR '' '', CHR 0x09, CHR 0x0A, CHR 0x0B, CHR 0x0C, CHR 0x0D,
            CHR 0x1C, CHR 0x1D, CHR 0x1E, CHR 0x1F, CHR 0x85, CHR 0xA0})"

definition py_strip :: "string \<Rightarrow> string" where
  "py_strip s = rev (dropWhile is_space (rev (dropWhile is_space s)))"

fun py_remove :: "string \<Rightarrow> string \<Rightarrow> string" where
  "py_remove old [] = []"
| "py_remove old (c # cs) =
     (if old \<noteq> [] \<and> prefix old (c # cs) then py_remove old (drop (length old - 1) cs)
      else c # py_remove old cs)"

text \<open>
  \<open>int(s)\<close> of the interpreter: white space at both ends is passed over, which for
  \<open>int\<close> is the blank and 0x09 to 0x0D, and 0x85 and 0xA0, which it reads as blanks, but
  not 0x1C to 0x1F; then an optional sign and decimal digits, which single underscores
  may group. Below 256 the decimal digits are 0 to 9. More than 4300 digits, the default
  limit of the interpreter, and anything else raise ValueError.
\<close>

definition is_int_space :: "char \<Rightarrow> bool" where
  "is_int_space c =
     (c \<in> {CHR '' '', CHR 0x09, CHR 0x0A, CHR 0x0B, CHR 0x0C, CHR 0x0D, CHR 0x85, CHR 0xA0})"

definition max_str_digits :: nat where
  "max_str_digits = 4300"

definition digit_groups_ok :: "string \<Rightarrow> bool" where
  "digit_groups_ok body =
     list_all (\<lambda>g. g \<noteq> [] \<and> list_all is_digit g) (split_on CHR ''_'' body)"

definition py_int :: "string \<Rightarrow> int option" where
  "py_int s =
     (let t = rev (dropWhile is_int_space (rev (dropWhile is_int_space s)));
          neg = (case t of c # r \<Rightarrow> c = CHR ''-'' | [] \<Rightarrow> False);
          body = (case t of
                    c # r \<Rightarrow> (if c = CHR ''-'' \<or> c = CHR ''+'' then r else t)
                  | [] \<Rightarrow> []);
          digits = filter (\<lambda>c. c \<noteq> CHR ''_'') body
      in if digit_groups_ok body \<and> length digits \<le> max_str_digits
         then (let n = int (digits_val digits) in Some (if neg then - n else n))
         else None)"

datatype sect = Sec_summary | Sec_score | Sec_follow_ups

text \<open>\<open>parsed_data["LLM Follow-Ups"] += line + "\n"\<close>: the key must be there.\<close>

definition append_follow_ups :: "fields \<Rightarrow> string \<Rightarrow> exn + fields" where
  "append_follow_ups parsed_data line =
     (case map_of parsed_data ''LLM Follow-Ups'' of
        None \<Rightarrow> Inl KeyError
      | Some (JStr f) \<Rightarrow>
          Inr (AList.update ''LLM Follow-Ups'' (JStr (f @ line @ [CHR 0x0A])) parsed_data)
      | Some _ \<Rightarrow> Inl TypeError)"

text \<open>
  One turn of the loop, on the pair of \<open>parsed_data\<close> and \<open>current_section\<close>. A score
  that is no integer leaves both as they are (\<open>continue\<close>).
\<close>

definition parse_line ::
  "fields \<times> sect option \<Rightarrow> string \<Rightarrow> exn + fields \<times> sect option" where
  "parse_line st line =
     (let parsed_data = fst st; current_section = snd st in
      if prefix ''Summary:'' line then
        Inr (AList.update ''LLM Summary'' (JStr (py_strip (py_remove ''Summary:'' line)))
               parsed_data, Some Sec_summary)
      else if prefix ''Score:'' line then
        (case py_int (py_strip (py_remove ''Score:'' line)) of
           None \<Rightarrow> Inr (parsed_data, current_section)
         | Some n \<Rightarrow> Inr (AList.update ''LLM Score'' (JInt n) parsed_data, Some Sec_score))
      else if prefix ''Issues:'' line \<or> prefix ''Follow-Ups:'' line then
        (case append_follow_ups
                (if map_of parsed_data ''LLM Follow-Ups'' = None
                 then AList.update ''LLM Follow-Ups'' (JStr []) parsed_data
                 else parsed_data) line of
           Inl e \<Rightarrow> Inl e
         | Inr d \<Rightarrow> Inr (d, Some Sec_follow_ups))
      else if current_section = Some Sec_follow_ups \<and> py_strip line \<noteq> [] then
        (case append_follow_ups parsed_data line of
           Inl e \<Rightarrow> Inl e
         | Inr d \<Rightarrow> Inr (d, current_section))
      else Inr (parsed_data, current_section))"

fun parse_loop ::
  "string list \<Rightarrow> fields \<times> sect option \<Rightarrow> exn + fields \<times> sect option" where
  "parse_loop [] st = Inr st"
| "parse_loop (line # lines) st =
     (case parse_line st line of
        Inl e \<Rightarrow> Inl e
      | Inr st' \<Rightarrow> parse_loop lines st')"

text \<open>The last statement strips the follow-ups, when there are any.\<close>

definition strip_follow_ups :: "fields \<Rightarrow> exn + fields" where
  "strip_follow_ups parsed_data =
     (case map_of parsed_data ''LLM Follow-Ups'' of
        None \<Rightarrow> Inr parsed_data
      | Some (JStr f) \<Rightarrow> Inr (AList.update ''LLM Follow-Ups'' (JStr (py_strip f)) parsed_data)
      | Some _ \<Rightarrow> Inl AttributeError)"

definition response_lines :: "string \<Rightarrow> string list" where
  "response_lines response_text = split_on CHR 0x0A (py_strip response_text)"

definition parse_llm_response :: "string \<Rightarrow> exn + fields" where
  "parse_llm_response response_text =
     (case parse_loop (response_lines response_text) ([], None) of
        Inl e \<Rightarrow> Inl e
      | Inr st \<Rightarrow> strip_follow_ups (fst st))"

text \<open>
  What the fields are, from the lines: the summary is the last \<open>Summary:\<close> line, the
  score the last \<open>Score:\<close> line that holds an integer. A \<open>Summary:\<close> line and a \<open>Score:\<close>
  line with an integer end a run of follow-ups; a \<open>Score:\<close> line with no integer and a
  blank line are passed over.
\<close>

definition summary_field :: "string list \<Rightarrow> json option" where
  "summary_field lines =
     (case filter (prefix ''Summary:'') lines of
        [] \<Rightarrow> None
      | l # ls \<Rightarrow> Some (JStr (py_strip (py_remove ''Summary:'' (last (l # ls))))))"

definition score_value :: "string \<Rightarrow> int option" where
  "score_value line =
     (if prefix ''Score:'' line then py_int (py_strip (py_remove ''Score:'' line)) else None)"

definition score_field :: "string list \<Rightarrow> json option" where
  "score_field lines =
     (case filter (\<lambda>l. score_value l \<noteq> None) lines of
        [] \<Rightarrow> None
      | l # ls \<Rightarrow> map_option JInt (score_value (last (l # ls))))"

definition follow_label :: "string \<Rightarrow> bool" where
  "follow_label line = (prefix ''Issues:'' line \<or> prefix ''Follow-Ups:'' line)"

definition switches_section :: "string \<Rightarrow> bool" where
  "switches_section line = (prefix ''Summary:'' line \<or> score_value line \<noteq> None)"

definition kept_line :: "string \<Rightarrow> bool" where
  "kept_line line = (\<not> prefix ''Score:'' line \<and> py_strip line \<noteq> [])"

definition joined :: "string list \<Rightarrow> string" where
  "joined lines = concat (map (\<lambda>l. l @ [CHR 0x0A]) lines)"

text \<open>
  The lines of the follow-ups, in the order of the text: every \<open>Issues:\<close> and \<open>Follow-Ups:\<close>
  line, and between such a line and the next \<open>Summary:\<close> line or \<open>Score:\<close> line with an
  integer, the lines that are not blank and are no \<open>Score:\<close> line. The flag tells whether
  the lines are being kept.
\<close>

fun accumulated :: "bool \<Rightarrow> string list \<Rightarrow> string list" where
  "accumulated active [] = []"
| "accumulated active (line # lines) =
     (if switches_section line then accumulated False lines
      else if follow_label line then line # accumulated True lines
      else if active \<and> kept_line line then line # accumulated active lines
      else accumulated active lines)"

definition follow_ups_field :: "string list \<Rightarrow> json option" where
  "follow_ups_field lines =
     (case accumulated False lines of
        [] \<Rightarrow> None
      | l # ls \<Rightarrow> Some (JStr (py_strip (joined (l # ls)))))"

text \<open>
  The follow-ups accumulated so far, and what the loop keeps true: the follow-ups are text,
  and they are there while the current section is the follow-ups.
\<close>

definition fu :: "fields \<times> sect option \<Rightarrow> json option" where
  "fu st = map_of (fst st) ''LLM Follow-Ups''"

definition fu_text :: "fields \<times> sect option \<Rightarrow> string" where
  "fu_text st = (case fu st of Some (JStr f) \<Rightarrow> f | _ \<Rightarrow> [])"

definition parse_inv :: "fields \<times> sect option \<Rightarrow> bool" where
  "parse_inv st = ((fu st = None \<or> (\<exists>f. fu st = Some (JStr f)))
      \<and> (snd st = Some Sec_follow_ups \<longrightarrow> fu st \<noteq> None))"

section \<open>The record store\<close>




definition table_update ::
  "string \<Rightarrow> fields \<Rightarrow> airtable_record list \<Rightarrow> airtable_record list" where
  "table_update rid data tbl =
     map (\<lambda>r. if rec_id r = rid then r\<lparr>rec_fields := AList.merge (rec_fields r) data\<rparr> else r)
       tbl"





section \<open>LLM enrichment (\<open>evaluate_with_llm\<close>)\<close>

text \<open>
  The generation service is outside the repository: \<open>generate_content attempt\<close> is the
  text it answers at the given attempt of one invocation, or \<open>None\<close> when the call, or
  reading its text, raises. The prompt, the same at every attempt, is not modelled. What
  the evaluator does to the outside is the list of its calls and sleeps, and the
  Applicants table.
\<close>

datatype event = Generate | Sleep nat

definition max_retries :: nat where
  "max_retries = 3"

text \<open>The handler of the \<open>except\<close> clause: it sleeps before every attempt but the last.\<close>

definition after_failure :: "nat \<Rightarrow> event list" where
  "after_failure attempt = (if attempt < max_retries - 1 then [Sleep (2 ^ attempt)] else [])"

fun llm_attempts ::
  "(nat \<Rightarrow> string option) \<Rightarrow> airtable_record \<Rightarrow> nat list
     \<Rightarrow> event list \<times> airtable_record list \<Rightarrow> event list \<times> airtable_record list" where
  "llm_attempts generate_content applicant_record [] st = st"
| "llm_attempts generate_content applicant_record (attempt # rest) st =
     (case generate_content attempt of
        None \<Rightarrow>
          llm_attempts generate_content applicant_record rest
            (fst st @ [Generate] @ after_failure attempt, snd st)
      | Some response_text \<Rightarrow>
          (case parse_llm_response response_text of
             Inl e \<Rightarrow>
               llm_attempts generate_content applicant_record rest
                 (fst st @ [Generate] @ after_failure attempt, snd st)
           | Inr update_data \<Rightarrow>
               (fst st @ [Generate],
                if update_data \<noteq> []
                then table_update (rec_id applicant_record) update_data (snd st)
                else snd st)))"

text \<open>The guard: \<open>if applicant_record.get('fields', {}).get('LLM Score')\<close>\<close>

definition has_llm_score :: "airtable_record \<Rightarrow> bool" where
  "has_llm_score applicant_record =
     (case map_of (rec_fields applicant_record) ''LLM Score'' of
        None \<Rightarrow> False
      | Some v \<Rightarrow> py_truthy v)"

definition evaluate_with_llm ::
  "(nat \<Rightarrow> string option) \<Rightarrow> airtable_record \<Rightarrow> airtable_record list
     \<Rightarrow> event list \<times> airtable_record list" where
  "evaluate_with_llm generate_content applicant_record applicants =
     (if has_llm_score applicant_record then ([], applicants)
      else llm_attempts generate_content applicant_record [0..<max_retries] ([], applicants))"

section \<open>Compression (steps 1 to 4 of \<open>compress_evaluate_enrich\<close>)\<close>





section \<open>The orchestrator (\<open>compress_evaluate_enrich\<close>)\<close>

text \<open>
  The whole function: compression, then the shortlist evaluation, then the LLM
  evaluation, on the record fetched before the compressed document was written. The
  \<open>except Exception\<close> around them catches what the shortlist evaluation raises and ends
  the run; a missing applicant ends it before anything is written.
\<close>

datatype run = Ran | Applicant_not_found | Caught exn


text \<open>The fields the LLM evaluator writes.\<close>

definition llm_keys :: "string set" where
  "llm_keys = {''LLM Summary'', ''LLM Score'', ''LLM Follow-Ups''}"

section \<open>Decompression (\<open>decompress_applicant_data\<close>)\<close>








section \<open>What the specification says of the normalized records\<close>

















section \<open>Properties\<close>

subsection \<open>Strings and the experience loop\<close>

lemma py_in_sublist: "py_in sub s = sublist sub s"
  by (induction s) (auto simp: sublist_Cons_right)

lemma job_months_obj: "job_months now (JObj job) = Inr (counted_months now job)"
  by (auto simp: job_months_def job_try_def counted_months_def start_date_of_def
      end_date_of_def split: option.splits json.splits sum.splits exn.splits)

lemma total_months_loop_sum:
  "total_months_loop now (map JObj jobs) acc = Inr (acc + spec_total_months now jobs)"
  by (induction jobs arbitrary: acc)
    (auto simp: job_months_obj spec_total_months_def split: option.splits)

lemma calculate_total_experience_objs:
  "calculate_total_experience now (JArr (map JObj jobs))
     = Inr (of_int (spec_total_months now jobs) / 12)"
  by (simp add: calculate_total_experience_def total_months_loop_sum)

subsection \<open>Experience years\<close>

text \<open>
  C3, as the claim states it, fails: an entry is skipped not only when its \<open>Start\<close> does
  not parse. The entry below has a \<open>Start\<close> that parses and an \<open>End\<close> that is text but
  no date; the loop skips it and the total is 0.
\<close>

theorem calculate_total_experience_unparsable_end:
  "start_date_of [(''Start'', JStr ''2019-01-01''), (''End'', JStr ''Present'')]
     = Some \<lparr>year = 2019, month = 1, day = 1\<rparr>
   \<and> job_months \<lparr>year = 2023, month = 6, day = 1\<rparr>
        (JObj [(''Start'', JStr ''2019-01-01''), (''End'', JStr ''Present'')]) = Inr None
   \<and> calculate_total_experience \<lparr>year = 2023, month = 6, day = 1\<rparr>
        (JArr [JObj [(''Start'', JStr ''2019-01-01''), (''End'', JStr ''Present'')]]) = Inr 0"
  by code_simp

text \<open>
  C3, amended: for every list of experience entries the total is, without error, one
  twelfth of the sum, over the entries whose \<open>Start\<close> is a date and whose \<open>End\<close> is a date
  or empty (absent, null, or false for Python), of the month difference from \<open>Start\<close> to
  \<open>End\<close>, the current date standing for an empty \<open>End\<close>; every other entry is skipped.
  The two entries of the specification, at 2023-06-01, give 48 months, 4 years.
\<close>

theorem calculate_total_experience_sum:
  "calculate_total_experience now (JArr (map JObj jobs))
     = Inr (of_int (spec_total_months now jobs) / 12)
   \<and> calculate_total_experience \<lparr>year = 2023, month = 6, day = 1\<rparr>
        (JArr [JObj [(''Start'', JStr ''2019-01-01''), (''End'', JStr ''2021-01-01'')],
               JObj [(''Start'', JStr ''2021-06-01''), (''End'', JNull)]]) = Inr 4
   \<and> spec_total_months \<lparr>year = 2023, month = 6, day = 1\<rparr>
        [[(''Start'', JStr ''2019-01-01''), (''End'', JStr ''2021-01-01'')],
         [(''Start'', JStr ''2021-06-01''), (''End'', JNull)]] = 48"
proof (intro conjI)
  show "calculate_total_experience now (JArr (map JObj jobs))
     = Inr (of_int (spec_total_months now jobs) / 12)"
    by (rule calculate_total_experience_objs)
  show "calculate_total_experience \<lparr>year = 2023, month = 6, day = 1\<rparr>
        (JArr [JObj [(''Start'', JStr ''2019-01-01''), (''End'', JStr ''2021-01-01'')],
               JObj [(''Start'', JStr ''2021-06-01''), (''End'', JNull)]]) = Inr 4"
    by code_simp
  show "spec_total_months \<lparr>year = 2023, month = 6, day = 1\<rparr>
        [[(''Start'', JStr ''2019-01-01''), (''End'', JStr ''2021-01-01'')],
         [(''Start'', JStr ''2021-06-01''), (''End'', JNull)]] = 48"
    by code_simp
qed

subsection \<open>The location rule\<close>

text \<open>
  C10: the location rule tests substrings, so a location that names no country of the
  list can pass: \<open>Australia\<close> and \<open>Russia\<close> pass, and the only entry of the list either
  contains is \<open>us\<close>.
\<close>

theorem location_rule_over_matches:
  "location_ok (py_lower ''Australia'') \<and> location_ok (py_lower ''Russia'')
   \<and> filter (\<lambda>loc. py_in loc (py_lower ''Australia'')) APPROVED_LOCATIONS = [''us'']
   \<and> filter (\<lambda>loc. py_in loc (py_lower ''Russia'')) APPROVED_LOCATIONS = [''us'']"
  by code_simp

subsection \<open>The shortlist decision\<close>

lemma job_at_tier_1_typed:
  "is_text (map_of job ''Company'') \<Longrightarrow>
   job_at_tier_1 (JObj job)
     = Inr (case map_of job ''Company'' of
              Some (JStr c) \<Rightarrow> py_lower c \<in> TIER_1_COMPANIES
            | _ \<Rightarrow> False)"
  by (auto simp: job_at_tier_1_def is_text_def py_lower_def TIER_1_COMPANIES_def
      split: option.splits json.splits)

lemma py_any_typed:
  "list_all (\<lambda>job. is_text (map_of job ''Company'')) experience \<Longrightarrow>
   py_any job_at_tier_1 (map JObj experience) = Inr (spec_tier_1 experience)"
  by (induction experience) (auto simp: spec_tier_1_def job_at_tier_1_typed)

lemma compensation_ok_typed:
  "is_numeric (map_of salary ''Preferred Rate'') \<Longrightarrow>
   is_numeric (map_of salary ''Availability (hrs/wk)'') \<Longrightarrow>
   compensation_ok (map_of salary ''Preferred Rate'')
      (case map_of salary ''Availability (hrs/wk)'' of Some v \<Rightarrow> v | None \<Rightarrow> JInt 0)
    = Inr (spec_compensation_rule salary)"
  by (auto simp: compensation_ok_def rate_ok_def availability_ok_def py_le_def py_ge_def
      is_numeric_def spec_compensation_rule_def split: option.splits json.splits)

lemma location_ok_sublist:
  "location_ok l = list_ex (\<lambda>a. sublist a l) APPROVED_LOCATIONS"
  by (simp add: location_ok_def py_in_sublist)

text \<open>
  C2: for every compressed document whose fields have the types of the data model, the
  evaluation raises nothing, and it appends exactly one lead, carrying the serialised
  document and the reason, when the three rules of the specification all pass, and
  leaves the leads as they are when one of them fails.
\<close>

theorem shortlist_decision:
  assumes "well_typed personal experience salary"
  shows "evaluate_shortlisting dumps now applicant_record
           (build_json personal experience salary) leads =
     Inr (if spec_experience_rule now experience \<and> spec_compensation_rule salary
             \<and> spec_location_rule personal
          then leads @ [\<lparr>lead_applicant = [rec_id applicant_record],
                          lead_compressed_json = dumps (build_json personal experience salary),
                          lead_score_reason = spec_reason now personal experience salary\<rparr>]
          else leads)"
proof -
  from assms have t: "is_text (map_of personal ''Location'')"
    and c: "list_all (\<lambda>job. is_text (map_of job ''Company'')) experience"
    and r: "is_numeric (map_of salary ''Preferred Rate'')"
    and a: "is_numeric (map_of salary ''Availability (hrs/wk)'')"
    by (simp_all add: well_typed_def)
  have w: "worked_at_tier_1 (JArr (map JObj experience)) = Inr (spec_tier_1 experience)"
    by (simp add: worked_at_tier_1_def py_any_typed [OF c])
  have rules: "shortlist_rules now (build_json personal experience salary) =
     Inr (if spec_experience_rule now experience \<and> spec_compensation_rule salary
             \<and> spec_location_rule personal
          then Some (spec_reason now personal experience salary) else None)"
  proof (cases "map_of personal ''Location''")
    case None
    then show ?thesis
      by (simp add: shortlist_rules_def build_json_def calculate_total_experience_objs w
          compensation_ok_typed [OF r a] spec_location_rule_def location_ok_sublist
          py_lower_def APPROVED_LOCATIONS_def)
  next
    case (Some v)
    with t obtain l where v: "v = JStr l"
      by (auto simp: is_text_def split: json.splits)
    show ?thesis
      by (simp add: Some v shortlist_rules_def build_json_def calculate_total_experience_objs
          w compensation_ok_typed [OF r a] spec_location_rule_def location_ok_sublist
          spec_experience_rule_def spec_reason_def)
  qed
  show ?thesis
    by (simp add: evaluate_shortlisting_def rules)
qed

text \<open>
  The two examples of the specification: four years at rate 80, 25 hours, in the United
  States, is shortlisted; two years with no tier-1 employer is not.
\<close>

theorem shortlist_decision_witness:
  "well_typed [(''Location'', JStr ''United States'')]
      [[(''Start'', JStr ''2019-01-01''), (''End'', JStr ''2021-01-01'')],
       [(''Start'', JStr ''2021-06-01''), (''End'', JNull)]]
      [(''Preferred Rate'', JInt 80), (''Availability (hrs/wk)'', JInt 25)]
   \<and> evaluate_shortlisting (\<lambda>d. ''{}'') \<lparr>year = 2023, month = 6, day = 1\<rparr>
        \<lparr>rec_id = ''recA'', rec_fields = []\<rparr>
        (build_json [(''Location'', JStr ''United States'')]
          [[(''Start'', JStr ''2019-01-01''), (''End'', JStr ''2021-01-01'')],
           [(''Start'', JStr ''2021-06-01''), (''End'', JNull)]]
          [(''Preferred Rate'', JInt 80), (''Availability (hrs/wk)'', JInt 25)]) []
      = Inr [\<lparr>lead_applicant = [''recA''], lead_compressed_json = ''{}'',
              lead_score_reason = \<lparr>reason_exp_years = 4, reason_tier_1 = False,
                reason_rate = Some (JInt 80), reason_availability = JInt 25,
                reason_location = JStr ''United States''\<rparr>\<rparr>]
   \<and> well_typed [(''Location'', JStr ''United States'')]
      [[(''Company'', JStr ''Acme''), (''Start'', JStr ''2021-06-01''), (''End'', JNull)]]
      [(''Preferred Rate'', JInt 80), (''Availability (hrs/wk)'', JInt 25)]
   \<and> evaluate_shortlisting (\<lambda>d. ''{}'') \<lparr>year = 2023, month = 6, day = 1\<rparr>
        \<lparr>rec_id = ''recA'', rec_fields = []\<rparr>
        (build_json [(''Location'', JStr ''United States'')]
          [[(''Company'', JStr ''Acme''), (''Start'', JStr ''2021-06-01''), (''End'', JNull)]]
          [(''Preferred Rate'', JInt 80), (''Availability (hrs/wk)'', JInt 25)]) []
      = Inr []"
proof -
  let ?now = "\<lparr>year = 2023, month = 6, day = 1\<rparr>"
  let ?p = "[(''Location'', JStr ''United States'')]"
  let ?s = "[(''Preferred Rate'', JInt 80), (''Availability (hrs/wk)'', JInt 25)]"
  let ?e1 = "[[(''Start'', JStr ''2019-01-01''), (''End'', JStr ''2021-01-01'')],
              [(''Start'', JStr ''2021-06-01''), (''End'', JNull)]]"
  let ?e2 = "[[(''Company'', JStr ''Acme''), (''Start'', JStr ''2021-06-01''), (''End'', JNull)]]"
  have w1: "well_typed ?p ?e1 ?s" by code_simp
  have w2: "well_typed ?p ?e2 ?s" by code_simp
  have r1: "spec_experience_rule ?now ?e1" by code_simp
  have r2: "\<not> spec_experience_rule ?now ?e2" by code_simp
  have c: "spec_compensation_rule ?s" by code_simp
  have l: "spec_location_rule ?p" by code_simp
  have reason: "spec_reason ?now ?p ?e1 ?s = \<lparr>reason_exp_years = 4, reason_tier_1 = False,
                reason_rate = Some (JInt 80), reason_availability = JInt 25,
                reason_location = JStr ''United States''\<rparr>" by code_simp
  have pass: "evaluate_shortlisting (\<lambda>d. ''{}'') ?now \<lparr>rec_id = ''recA'', rec_fields = []\<rparr>
        (build_json ?p ?e1 ?s) []
      = Inr [\<lparr>lead_applicant = [''recA''], lead_compressed_json = ''{}'',
              lead_score_reason = \<lparr>reason_exp_years = 4, reason_tier_1 = False,
                reason_rate = Some (JInt 80), reason_availability = JInt 25,
                reason_location = JStr ''United States''\<rparr>\<rparr>]"
    by (simp only: shortlist_decision [OF w1] r1 c l reason simp_thms if_True append_Nil
        airtable_record.select_convs)
  have fail: "evaluate_shortlisting (\<lambda>d. ''{}'') ?now \<lparr>rec_id = ''recA'', rec_fields = []\<rparr>
        (build_json ?p ?e2 ?s) [] = Inr []"
    by (simp only: shortlist_decision [OF w2] r2 c l simp_thms if_False)
  from w1 pass w2 fail show ?thesis by (intro conjI)
qed

subsection \<open>What the shortlist evaluation reads\<close>

lemma job_try_same_month:
  "year now1 = year now2 \<Longrightarrow> month now1 = month now2 \<Longrightarrow>
   job_try now1 job = job_try now2 job"
  by (auto simp: job_try_def month_diff_def split: sum.splits)

lemma job_try_ended: "job_ended job \<Longrightarrow> job_try now1 job = job_try now2 job"
  by (cases job) (auto simp: job_try_def job_ended_def split: sum.splits option.splits)

lemma job_months_same_month:
  "year now1 = year now2 \<Longrightarrow> month now1 = month now2 \<Longrightarrow>
   job_months now1 job = job_months now2 job"
  by (simp add: job_months_def job_try_same_month [of now1 now2])

lemma job_months_ended: "job_ended job \<Longrightarrow> job_months now1 job = job_months now2 job"
  by (simp add: job_months_def job_try_ended [where ?now1.0 = now1 and ?now2.0 = now2])

lemma loop_same_month:
  "year now1 = year now2 \<Longrightarrow> month now1 = month now2 \<Longrightarrow>
   total_months_loop now1 jobs acc = total_months_loop now2 jobs acc"
  by (induction jobs arbitrary: acc)
    (simp_all add: job_months_same_month [of now1 now2] split: sum.splits option.splits)

lemma loop_ended:
  "list_all job_ended jobs \<Longrightarrow>
   total_months_loop now1 jobs acc = total_months_loop now2 jobs acc"
  by (induction jobs arbitrary: acc)
    (simp_all add: job_months_ended [where ?now1.0 = now1 and ?now2.0 = now2]
      split: sum.splits option.splits)

lemma rules_same_month:
  assumes "year now1 = year now2" and "month now1 = month now2"
  shows "shortlist_rules now1 doc = shortlist_rules now2 doc"
proof -
  have "calculate_total_experience now1 l = calculate_total_experience now2 l" for l
    by (simp add: calculate_total_experience_def loop_same_month [OF assms] split: sum.splits)
  then show ?thesis
    by (cases "py_get doc ''experience'' (JArr [])") (simp_all add: shortlist_rules_def)
qed

lemma calc_ended:
  "py_iter l = Inr jobs \<Longrightarrow> list_all job_ended jobs \<Longrightarrow>
   calculate_total_experience now1 l = calculate_total_experience now2 l"
  by (simp add: calculate_total_experience_def
      loop_ended [where ?now1.0 = now1 and ?now2.0 = now2])

lemma calc_not_iter:
  "py_iter l = Inl e \<Longrightarrow>
   calculate_total_experience now1 l = calculate_total_experience now2 l"
  by (simp add: calculate_total_experience_def)

lemma rules_ended:
  assumes "all_jobs_ended doc"
  shows "shortlist_rules now1 doc = shortlist_rules now2 doc"
proof (cases "py_get doc ''experience'' (JArr [])")
  case (Inl e)
  then show ?thesis by (simp add: shortlist_rules_def)
next
  case (Inr l)
  have "calculate_total_experience now1 l = calculate_total_experience now2 l"
  proof (cases "py_iter l")
    case (Inl e)
    then show ?thesis by (rule calc_not_iter)
  next
    case (Inr jobs)
    with assms \<open>py_get doc ''experience'' (JArr []) = Inr l\<close> have "list_all job_ended jobs"
      by (simp add: all_jobs_ended_def)
    with Inr show ?thesis by (rule calc_ended)
  qed
  with Inr show ?thesis by (simp add: shortlist_rules_def)
qed

text \<open>
  C9, as the claim states it, fails: the evaluation reads the clock. The same document,
  with one job still open, is rejected in June 2023 (41 months) and shortlisted in June
  2024 (53 months).
\<close>

theorem shortlist_same_document_two_dates:
  "evaluate_shortlisting (\<lambda>d. []) \<lparr>year = 2023, month = 6, day = 1\<rparr>
      \<lparr>rec_id = ''rec1'', rec_fields = []\<rparr>
      (JObj [(''personal'', JObj [(''Location'', JStr ''Canada'')]),
             (''experience'',
                JArr [JObj [(''Company'', JStr ''Acme''), (''Start'', JStr ''2020-01-01'')]]),
             (''salary'',
                JObj [(''Preferred Rate'', JInt 50), (''Availability (hrs/wk)'', JInt 40)])]) []
    = Inr []
   \<and> evaluate_shortlisting (\<lambda>d. []) \<lparr>year = 2024, month = 6, day = 1\<rparr>
      \<lparr>rec_id = ''rec1'', rec_fields = []\<rparr>
      (JObj [(''personal'', JObj [(''Location'', JStr ''Canada'')]),
             (''experience'',
                JArr [JObj [(''Company'', JStr ''Acme''), (''Start'', JStr ''2020-01-01'')]]),
             (''salary'',
                JObj [(''Preferred Rate'', JInt 50), (''Availability (hrs/wk)'', JInt 40)])]) []
    = Inr [\<lparr>lead_applicant = [''rec1''], lead_compressed_json = [],
            lead_score_reason = \<lparr>reason_exp_years = 53 / 12, reason_tier_1 = False,
              reason_rate = Some (JInt 50), reason_availability = JInt 40,
              reason_location = JStr ''Canada''\<rparr>\<rparr>]"
  by code_simp

text \<open>
  C9, amended: the evaluation is a function of the document and of the current date,
  of which it reads the year and the month, and only for an entry with no \<open>End\<close>. Two
  evaluations of the same document give the same outcome (the same error, or the same
  leads with the same reason) when they run in the same month of the same year, or when
  every entry of the document has an \<open>End\<close>.
\<close>

theorem shortlist_depends_on_document_and_month:
  "(year now1 = year now2 \<and> month now1 = month now2) \<or> all_jobs_ended applicant_json \<Longrightarrow>
   evaluate_shortlisting dumps now1 applicant_record applicant_json leads
     = evaluate_shortlisting dumps now2 applicant_record applicant_json leads"
  using rules_same_month [of now1 now2 applicant_json]
    rules_ended [of applicant_json now1 now2]
  by (auto simp: evaluate_shortlisting_def)

theorem shortlist_depends_on_document_and_month_witness:
  "all_jobs_ended
      (JObj [(''personal'', JObj [(''Location'', JStr ''Canada'')]),
             (''experience'',
                JArr [JObj [(''Start'', JStr ''2019-01-01''), (''End'', JStr ''2023-03-01'')]]),
             (''salary'',
                JObj [(''Preferred Rate'', JInt 50), (''Availability (hrs/wk)'', JInt 40)])])
   \<and> evaluate_shortlisting (\<lambda>d. []) \<lparr>year = 2023, month = 6, day = 1\<rparr>
      \<lparr>rec_id = ''rec1'', rec_fields = []\<rparr>
      (JObj [(''personal'', JObj [(''Location'', JStr ''Canada'')]),
             (''experience'',
                JArr [JObj [(''Start'', JStr ''2019-01-01''), (''End'', JStr ''2023-03-01'')]]),
             (''salary'',
                JObj [(''Preferred Rate'', JInt 50), (''Availability (hrs/wk)'', JInt 40)])]) []
    = evaluate_shortlisting (\<lambda>d. []) \<lparr>year = 2031, month = 2, day = 7\<rparr>
      \<lparr>rec_id = ''rec1'', rec_fields = []\<rparr>
      (JObj [(''personal'', JObj [(''Location'', JStr ''Canada'')]),
             (''experience'',
                JArr [JObj [(''Start'', JStr ''2019-01-01''), (''End'', JStr ''2023-03-01'')]]),
             (''salary'',
                JObj [(''Preferred Rate'', JInt 50), (''Availability (hrs/wk)'', JInt 40)])]) []"
proof -
  let ?doc = "JObj [(''personal'', JObj [(''Location'', JStr ''Canada'')]),
             (''experience'',
                JArr [JObj [(''Start'', JStr ''2019-01-01''), (''End'', JStr ''2023-03-01'')]]),
             (''salary'',
                JObj [(''Preferred Rate'', JInt 50), (''Availability (hrs/wk)'', JInt 40)])]"
  have e: "all_jobs_ended ?doc" by code_simp
  then have "(year \<lparr>year = 2023, month = 6, day = 1\<rparr> = year \<lparr>year = 2031, month = 2, day = 7\<rparr>
      \<and> month \<lparr>year = 2023, month = 6, day = 1\<rparr> = month \<lparr>year = 2031, month = 2, day = 7\<rparr>)
      \<or> all_jobs_ended ?doc" by (rule disjI2)
  from e shortlist_depends_on_document_and_month [OF this] show ?thesis by (rule conjI)
qed

subsection \<open>Parsing the LLM response\<close>

lemma prefix_Summary_Score: "prefix ''Summary:'' l \<Longrightarrow> \<not> prefix ''Score:'' l"
  by (cases l) (auto simp: prefix_def)

lemma follow_label_not_Summary: "follow_label l \<Longrightarrow> \<not> prefix ''Summary:'' l"
  by (cases l) (auto simp: prefix_def follow_label_def)

lemma follow_label_not_Score: "follow_label l \<Longrightarrow> \<not> prefix ''Score:'' l"
  by (cases l) (auto simp: prefix_def follow_label_def)

lemma strip_nonblank: "\<not> is_space c \<Longrightarrow> py_strip (c # r) \<noteq> []"
  by (simp add: py_strip_def dropWhile_eq_Nil_conv)

lemma follow_label_nonblank: "follow_label l \<Longrightarrow> py_strip l \<noteq> []"
proof -
  assume "follow_label l"
  then obtain r where "l = CHR ''I'' # r \<or> l = CHR ''F'' # r"
    by (auto simp: follow_label_def prefix_def)
  moreover have "\<not> is_space CHR ''I''" "\<not> is_space CHR ''F''"
    by (simp_all add: is_space_def)
  ultimately show ?thesis
    using strip_nonblank by blast
qed


lemma parse_line_Summary:
  "prefix ''Summary:'' line \<Longrightarrow>
   parse_line st line
     = Inr (AList.update ''LLM Summary'' (JStr (py_strip (py_remove ''Summary:'' line))) (fst st),
            Some Sec_summary)"
  by (simp add: parse_line_def)

lemma parse_line_Score:
  "\<not> prefix ''Summary:'' line \<Longrightarrow> prefix ''Score:'' line \<Longrightarrow>
   parse_line st line
     = (case score_value line of
          None \<Rightarrow> Inr st
        | Some n \<Rightarrow> Inr (AList.update ''LLM Score'' (JInt n) (fst st), Some Sec_score))"
  by (simp add: parse_line_def score_value_def split: option.splits)

lemma parse_line_label:
  "follow_label line \<Longrightarrow> parse_inv st \<Longrightarrow>
   parse_line st line
     = Inr (AList.update ''LLM Follow-Ups'' (JStr (fu_text st @ line @ [CHR 0x0A])) (fst st),
            Some Sec_follow_ups)"
  using follow_label_not_Summary [of line] follow_label_not_Score [of line]
  by (auto simp: parse_line_def append_follow_ups_def parse_inv_def fu_def fu_text_def
      follow_label_def update_conv' split: option.splits json.splits)

lemma parse_line_other:
  "\<not> prefix ''Summary:'' line \<Longrightarrow> \<not> prefix ''Score:'' line \<Longrightarrow> \<not> follow_label line \<Longrightarrow>
   parse_inv st \<Longrightarrow>
   parse_line st line
     = (if snd st = Some Sec_follow_ups \<and> py_strip line \<noteq> []
        then Inr (AList.update ''LLM Follow-Ups'' (JStr (fu_text st @ line @ [CHR 0x0A])) (fst st),
                  snd st)
        else Inr st)"
  by (auto simp: parse_line_def append_follow_ups_def parse_inv_def fu_def fu_text_def
      follow_label_def split: option.splits json.splits)


lemma score_value_not_Score: "\<not> prefix ''Score:'' line \<Longrightarrow> score_value line = None"
  by (simp add: score_value_def)

lemma parse_line_step:
  assumes "parse_inv st"
  shows "\<exists>st'. parse_line st line = Inr st' \<and> parse_inv st'
    \<and> map_of (fst st') ''LLM Summary''
        = (if prefix ''Summary:'' line then Some (JStr (py_strip (py_remove ''Summary:'' line)))
           else map_of (fst st) ''LLM Summary'')
    \<and> map_of (fst st') ''LLM Score''
        = (case score_value line of Some n \<Rightarrow> Some (JInt n) | None \<Rightarrow> map_of (fst st) ''LLM Score'')
    \<and> snd st' = (if prefix ''Summary:'' line then Some Sec_summary
                  else if score_value line \<noteq> None then Some Sec_score
                  else if follow_label line then Some Sec_follow_ups
                  else snd st)
    \<and> fu st' = (if prefix ''Summary:'' line \<or> prefix ''Score:'' line then fu st
                 else if follow_label line \<or> (snd st = Some Sec_follow_ups \<and> py_strip line \<noteq> [])
                 then Some (JStr (fu_text st @ line @ [CHR 0x0A]))
                 else fu st)"
proof -
  consider (summary) "prefix ''Summary:'' line"
    | (score) "\<not> prefix ''Summary:'' line" "prefix ''Score:'' line"
    | (label) "follow_label line"
    | (other) "\<not> prefix ''Summary:'' line" "\<not> prefix ''Score:'' line" "\<not> follow_label line"
    by blast
  then show ?thesis
  proof cases
    case summary
    with assms show ?thesis
      using prefix_Summary_Score [of line]
      by (simp add: parse_line_Summary score_value_not_Score update_conv' parse_inv_def fu_def)
  next
    case score
    with assms follow_label_not_Score [of line] show ?thesis
      by (cases "score_value line")
        (auto simp: parse_line_Score update_conv' parse_inv_def fu_def)
  next
    case label
    with assms show ?thesis
      using follow_label_not_Summary [of line] follow_label_not_Score [of line]
      by (simp add: parse_line_label score_value_not_Score update_conv' parse_inv_def fu_def)
  next
    case other
    with assms show ?thesis
      by (cases st)
        (auto simp: parse_line_other score_value_not_Score update_conv' parse_inv_def fu_def)
  qed
qed


lemma parse_loop_total:
  "parse_inv st \<Longrightarrow> \<exists>st'. parse_loop ls st = Inr st' \<and> parse_inv st'"
proof (induction ls arbitrary: st)
  case Nil
  then show ?case by simp
next
  case (Cons l ls)
  from parse_line_step [OF Cons.prems, of l] obtain st1
    where "parse_line st l = Inr st1" "parse_inv st1" by blast
  with Cons.IH [of st1] show ?case by simp
qed

lemma parse_loop_summary:
  "parse_inv st \<Longrightarrow> parse_loop ls st = Inr st' \<Longrightarrow>
   map_of (fst st') ''LLM Summary''
     = (case filter (prefix ''Summary:'') ls of
          [] \<Rightarrow> map_of (fst st) ''LLM Summary''
        | l # r \<Rightarrow> Some (JStr (py_strip (py_remove ''Summary:'' (last (l # r))))))"
proof (induction ls arbitrary: st)
  case Nil
  then show ?case by simp
next
  case (Cons l ls)
  from parse_line_step [OF Cons.prems(1), of l] obtain st1
    where s: "parse_line st l = Inr st1" "parse_inv st1"
      "map_of (fst st1) ''LLM Summary''
        = (if prefix ''Summary:'' l then Some (JStr (py_strip (py_remove ''Summary:'' l)))
           else map_of (fst st) ''LLM Summary'')" by blast
  with Cons.prems have "parse_loop ls st1 = Inr st'" by simp
  from Cons.IH [OF s(2) this] s(3) show ?case
    by (simp split: list.splits)
qed

lemma parse_loop_score:
  "parse_inv st \<Longrightarrow> parse_loop ls st = Inr st' \<Longrightarrow>
   map_of (fst st') ''LLM Score''
     = (case filter (\<lambda>l. score_value l \<noteq> None) ls of
          [] \<Rightarrow> map_of (fst st) ''LLM Score''
        | l # r \<Rightarrow> map_option JInt (score_value (last (l # r))))"
proof (induction ls arbitrary: st)
  case Nil
  then show ?case by simp
next
  case (Cons l ls)
  from parse_line_step [OF Cons.prems(1), of l] obtain st1
    where s: "parse_line st l = Inr st1" "parse_inv st1"
      "map_of (fst st1) ''LLM Score''
        = (case score_value l of Some n \<Rightarrow> Some (JInt n) | None \<Rightarrow> map_of (fst st) ''LLM Score'')"
    by blast
  with Cons.prems have "parse_loop ls st1 = Inr st'" by simp
  from Cons.IH [OF s(2) this] s(3) show ?case
    by (auto split: list.splits option.splits)
qed

lemma parse_loop_no_label:
  "fu st = None \<Longrightarrow> snd st \<noteq> Some Sec_follow_ups \<Longrightarrow> list_all (\<lambda>x. \<not> follow_label x) ls \<Longrightarrow>
   parse_loop ls st = Inr st' \<Longrightarrow> fu st' = None \<and> snd st' \<noteq> Some Sec_follow_ups"
proof (induction ls arbitrary: st)
  case Nil
  then show ?case by simp
next
  case (Cons l ls)
  have inv: "parse_inv st" using Cons.prems(1,2) by (simp add: parse_inv_def)
  from parse_line_step [OF inv, of l] obtain st1
    where s: "parse_line st l = Inr st1" 
      "snd st1 = (if prefix ''Summary:'' l then Some Sec_summary
                  else if score_value l \<noteq> None then Some Sec_score
                  else if follow_label l then Some Sec_follow_ups
                  else snd st)"
      "fu st1 = (if prefix ''Summary:'' l \<or> prefix ''Score:'' l then fu st
                 else if follow_label l \<or> (snd st = Some Sec_follow_ups \<and> py_strip l \<noteq> [])
                 then Some (JStr (fu_text st @ l @ [CHR 0x0A]))
                 else fu st)"
    by blast
  from Cons.prems s have a: "fu st1 = None" "snd st1 \<noteq> Some Sec_follow_ups"
    by (auto split: if_splits)
  from Cons.prems s(1) have "parse_loop ls st1 = Inr st'" "list_all (\<lambda>x. \<not> follow_label x) ls"
    by simp_all
  with Cons.IH [OF a] show ?case by simp
qed

lemma parse_loop_accumulates:
  "parse_inv st \<Longrightarrow> snd st = Some Sec_follow_ups \<Longrightarrow> list_all (\<lambda>x. \<not> switches_section x) ls \<Longrightarrow>
   parse_loop ls st = Inr st' \<Longrightarrow>
   fu st' = Some (JStr (fu_text st @ joined (filter kept_line ls)))"
proof (induction ls arbitrary: st)
  case Nil
  then show ?case by (auto simp: parse_inv_def fu_text_def joined_def)
next
  case (Cons l ls)
  from parse_line_step [OF Cons.prems(1), of l] obtain st1
    where s: "parse_line st l = Inr st1" "parse_inv st1"
      "snd st1 = (if prefix ''Summary:'' l then Some Sec_summary
                  else if score_value l \<noteq> None then Some Sec_score
                  else if follow_label l then Some Sec_follow_ups
                  else snd st)"
      "fu st1 = (if prefix ''Summary:'' l \<or> prefix ''Score:'' l then fu st
                 else if follow_label l \<or> (snd st = Some Sec_follow_ups \<and> py_strip l \<noteq> [])
                 then Some (JStr (fu_text st @ l @ [CHR 0x0A]))
                 else fu st)"
    by blast
  from Cons.prems(3) have ns: "\<not> prefix ''Summary:'' l" "score_value l = None"
    and rest: "list_all (\<lambda>x. \<not> switches_section x) ls"
    by (simp_all add: switches_section_def)
  from s(3) ns Cons.prems(2) have sec: "snd st1 = Some Sec_follow_ups" by simp
  from Cons.prems(4) s(1) have run: "parse_loop ls st1 = Inr st'" by simp
  have "fu_text st1 = fu_text st @ joined (filter kept_line [l])"
    using s(4) ns Cons.prems(1,2) follow_label_nonblank [of l] follow_label_not_Score [of l]
    by (auto simp: fu_text_def kept_line_def joined_def parse_inv_def)
  with Cons.IH [OF s(2) sec rest run] show ?case
    by (simp add: joined_def)
qed

lemma parse_loop_append:
  "parse_loop (xs @ ys) st
     = (case parse_loop xs st of Inl e \<Rightarrow> Inl e | Inr st1 \<Rightarrow> parse_loop ys st1)"
  by (induction xs arbitrary: st) (simp_all split: sum.splits)

lemma parse_inv_init: "parse_inv ([], None)"
  by (simp add: parse_inv_def fu_def)

lemma strip_follow_ups_ok:
  "parse_inv st \<Longrightarrow>
   \<exists>d. strip_follow_ups (fst st) = Inr d
     \<and> map_of d ''LLM Summary'' = map_of (fst st) ''LLM Summary''
     \<and> map_of d ''LLM Score'' = map_of (fst st) ''LLM Score''
     \<and> map_of d ''LLM Follow-Ups''
         = (case fu st of None \<Rightarrow> None | Some v \<Rightarrow> Some (JStr (py_strip (fu_text st))))"
  by (auto simp: strip_follow_ups_def parse_inv_def fu_def fu_text_def update_conv')

lemma parse_loop_follow_ups:
  assumes "parse_loop (pre @ l # post) ([], None) = Inr st'"
    and "list_all (\<lambda>x. \<not> follow_label x) pre" and "follow_label l"
    and "list_all (\<lambda>x. \<not> switches_section x) post"
  shows "fu st' = Some (JStr (joined (l # filter kept_line post)))"
proof -
  from parse_loop_total [OF parse_inv_init, of pre] obtain st1
    where 1: "parse_loop pre ([], None) = Inr st1" "parse_inv st1" by blast
  from parse_loop_no_label [OF _ _ assms(2) 1(1)] have n: "fu st1 = None"
    by (simp add: fu_def)
  from parse_line_step [OF 1(2), of l] assms(3) obtain st2
    where 2: "parse_line st1 l = Inr st2" "parse_inv st2" "snd st2 = Some Sec_follow_ups"
      "fu st2 = Some (JStr (fu_text st1 @ l @ [CHR 0x0A]))"
    using follow_label_not_Summary [of l] follow_label_not_Score [of l]
    by (auto simp: score_value_not_Score)
  from assms(1) 1(1) 2(1) have "parse_loop post st2 = Inr st'"
    by (simp add: parse_loop_append)
  from parse_loop_accumulates [OF 2(2,3) assms(4) this] 2(4) n show ?thesis
    by (simp add: fu_text_def joined_def)
qed

lemma append_follow_ups_frame:
  "append_follow_ups d line = Inr d' \<Longrightarrow> k \<notin> llm_keys \<Longrightarrow> map_of d' k = map_of d k"
  by (auto simp: append_follow_ups_def llm_keys_def update_conv'
      split: option.splits json.splits)

lemma parse_line_frame:
  assumes "parse_line st line = Inr st'" and "k \<notin> llm_keys"
  shows "map_of (fst st') k = map_of (fst st) k"
proof -
  from assms(2) have k: "k \<noteq> ''LLM Summary''" "k \<noteq> ''LLM Score''" "k \<noteq> ''LLM Follow-Ups''"
    by (auto simp: llm_keys_def)
  from assms(1) show ?thesis
    unfolding parse_line_def Let_def
    by (auto simp: update_conv' k dest!: append_follow_ups_frame [OF _ assms(2)]
        split: if_splits option.splits sum.splits)
qed

lemma parse_loop_frame:
  "parse_loop ls st = Inr st' \<Longrightarrow> k \<notin> llm_keys \<Longrightarrow> map_of (fst st') k = map_of (fst st) k"
proof (induction ls arbitrary: st)
  case Nil
  then show ?case by simp
next
  case (Cons l ls)
  from Cons.prems obtain st1 where 1: "parse_line st l = Inr st1" "parse_loop ls st1 = Inr st'"
    by (auto split: sum.splits)
  from parse_line_frame [OF 1(1) Cons.prems(2)] Cons.IH [OF 1(2) Cons.prems(2)]
  show ?case by simp
qed

lemma parse_llm_response_frame:
  assumes "parse_llm_response text = Inr d" and "k \<notin> llm_keys"
  shows "map_of d k = None"
proof -
  from assms(1) obtain st where st: "parse_loop (response_lines text) ([], None) = Inr st"
    "strip_follow_ups (fst st) = Inr d"
    by (auto simp: parse_llm_response_def split: sum.splits)
  from assms(2) have k: "k \<noteq> ''LLM Follow-Ups''"
    by (auto simp: llm_keys_def)
  from parse_loop_frame [OF st(1) assms(2)] have "map_of (fst st) k = None" by simp
  moreover from st(2) k have "map_of d k = map_of (fst st) k"
    by (auto simp: strip_follow_ups_def update_conv' split: option.splits json.splits)
  ultimately show ?thesis by simp
qed

lemma joined_Cons: "joined (l # ls) = l @ [CHR 0x0A] @ joined ls"
  by (simp add: joined_def)

lemma switches_not_label: "switches_section l \<Longrightarrow> \<not> follow_label l"
  using follow_label_not_Summary [of l] follow_label_not_Score [of l]
  by (auto simp: switches_section_def score_value_def split: if_splits)

lemma parse_loop_accumulated:
  "parse_inv st \<Longrightarrow> parse_loop ls st = Inr st' \<Longrightarrow>
   fu st' = (if fu st = None \<and> accumulated (snd st = Some Sec_follow_ups) ls = [] then None
             else Some (JStr (fu_text st @ joined (accumulated (snd st = Some Sec_follow_ups) ls))))"
proof (induction ls arbitrary: st)
  case Nil
  then show ?case by (auto simp: parse_inv_def fu_text_def joined_def)
next
  case (Cons l ls)
  from parse_line_step [OF Cons.prems(1), of l] obtain st1
    where s: "parse_line st l = Inr st1" "parse_inv st1"
      "snd st1 = (if prefix ''Summary:'' l then Some Sec_summary
                  else if score_value l \<noteq> None then Some Sec_score
                  else if follow_label l then Some Sec_follow_ups
                  else snd st)"
      "fu st1 = (if prefix ''Summary:'' l \<or> prefix ''Score:'' l then fu st
                 else if follow_label l \<or> (snd st = Some Sec_follow_ups \<and> py_strip l \<noteq> [])
                 then Some (JStr (fu_text st @ l @ [CHR 0x0A]))
                 else fu st)"
    by blast
  from Cons.prems(2) s(1) have run: "parse_loop ls st1 = Inr st'" by simp
  note IH = Cons.IH [OF s(2) run]
  consider (switch) "switches_section l"
    | (label) "\<not> switches_section l" "follow_label l"
    | (score) "\<not> switches_section l" "\<not> follow_label l" "prefix ''Score:'' l"
    | (line) "\<not> switches_section l" "\<not> follow_label l" "\<not> prefix ''Score:'' l"
        "snd st = Some Sec_follow_ups \<and> py_strip l \<noteq> []"
    | (skip) "\<not> switches_section l" "\<not> follow_label l" "\<not> prefix ''Score:'' l"
        "\<not> (snd st = Some Sec_follow_ups \<and> py_strip l \<noteq> [])"
    by blast
  then show ?case
  proof cases
    case switch
    then have "snd st1 \<noteq> Some Sec_follow_ups" "fu st1 = fu st"
      using s(3,4) by (auto simp: switches_section_def score_value_def split: if_splits)
    then have "fu_text st1 = fu_text st" "(snd st1 = Some Sec_follow_ups) = False"
      by (simp_all add: fu_text_def)
    with IH switch \<open>fu st1 = fu st\<close> show ?thesis by simp
  next
    case label
    then have a: "snd st1 = Some Sec_follow_ups"
      "fu st1 = Some (JStr (fu_text st @ l @ [CHR 0x0A]))"
      using s(3,4) follow_label_not_Score [of l]
      by (auto simp: switches_section_def)
    then have "fu_text st1 = fu_text st @ l @ [CHR 0x0A]" by (simp add: fu_text_def)
    with IH a label show ?thesis by (simp add: joined_Cons)
  next
    case score
    then have a: "snd st1 = snd st" "fu st1 = fu st"
      using s(3,4) by (auto simp: switches_section_def)
    then have "fu_text st1 = fu_text st" by (simp add: fu_text_def)
    with IH a score show ?thesis by (simp add: kept_line_def)
  next
    case line
    then have a: "snd st1 = snd st"
      "fu st1 = Some (JStr (fu_text st @ l @ [CHR 0x0A]))"
      using s(3,4) by (auto simp: switches_section_def)
    then have "fu_text st1 = fu_text st @ l @ [CHR 0x0A]" by (simp add: fu_text_def)
    with IH a line show ?thesis by (simp add: joined_Cons kept_line_def)
  next
    case skip
    then have a: "snd st1 = snd st" "fu st1 = fu st"
      using s(3,4) by (auto simp: switches_section_def)
    then have "fu_text st1 = fu_text st" by (simp add: fu_text_def)
    with IH a skip show ?thesis by (auto simp: kept_line_def)
  qed
qed

lemma parse_follow_ups_field:
  assumes "parse_loop ls ([], None) = Inr st"
  shows "(case fu st of None \<Rightarrow> None | Some v \<Rightarrow> Some (JStr (py_strip (fu_text st))))
           = follow_ups_field ls"
  using parse_loop_accumulated [OF parse_inv_init assms]
  by (simp add: follow_ups_field_def fu_def fu_text_def split: list.splits)


text \<open>
  C6, amended: the example of the specification parses to exactly the three fields, and a
  \<open>Score:\<close> line with an integer after the follow-ups ends them. For every text the parser
  raises nothing and yields no other field than the three; the summary is the last
  \<open>Summary:\<close> line and the score the last \<open>Score:\<close> line holding an integer, wherever
  they stand; the follow-ups are the \<open>Issues:\<close> and \<open>Follow-Ups:\<close> lines and, between such a
  line and the next \<open>Summary:\<close> line or \<open>Score:\<close> line with an integer, the lines that are
  not blank and are no \<open>Score:\<close> line, joined by newlines and stripped. So with no
  \<open>Issues:\<close> or \<open>Follow-Ups:\<close> line there are no follow-ups, and after the first such line
  the follow-ups are that line and the lines after it that are not blank and are no
  \<open>Score:\<close> line, as long as no \<open>Summary:\<close> line and no \<open>Score:\<close> line with an integer
  follows.
\<close>

theorem parse_llm_response_fields:
  "parse_llm_response
      ''Summary: Strong candidate\<newline>Score: 8\<newline>Follow-Ups: - Ask about visa status\<newline>- Ask about notice period''
     = Inr [(''LLM Summary'', JStr ''Strong candidate''), (''LLM Score'', JInt 8),
            (''LLM Follow-Ups'',
             JStr ''Follow-Ups: - Ask about visa status\<newline>- Ask about notice period'')]
   \<and> parse_llm_response ''Follow-Ups: - a\<newline>Score: 7\<newline>- b''
     = Inr [(''LLM Follow-Ups'', JStr ''Follow-Ups: - a''), (''LLM Score'', JInt 7)]
   \<and> (\<exists>d. parse_llm_response text = Inr d
        \<and> dom (map_of d) \<subseteq> llm_keys
        \<and> map_of d ''LLM Summary'' = summary_field (response_lines text)
        \<and> map_of d ''LLM Score'' = score_field (response_lines text)
        \<and> map_of d ''LLM Follow-Ups'' = follow_ups_field (response_lines text)
        \<and> (list_all (\<lambda>x. \<not> follow_label x) (response_lines text)
              \<longrightarrow> map_of d ''LLM Follow-Ups'' = None)
        \<and> (\<forall>pre l post.
              response_lines text = pre @ l # post
              \<and> list_all (\<lambda>x. \<not> follow_label x) pre \<and> follow_label l
              \<and> list_all (\<lambda>x. \<not> switches_section x) post
              \<longrightarrow> map_of d ''LLM Follow-Ups''
                    = Some (JStr (py_strip (joined (l # filter kept_line post))))))"
proof (intro conjI)
  show "parse_llm_response
      ''Summary: Strong candidate\<newline>Score: 8\<newline>Follow-Ups: - Ask about visa status\<newline>- Ask about notice period''
     = Inr [(''LLM Summary'', JStr ''Strong candidate''), (''LLM Score'', JInt 8),
            (''LLM Follow-Ups'',
             JStr ''Follow-Ups: - Ask about visa status\<newline>- Ask about notice period'')]"
    by code_simp
next
  show "parse_llm_response ''Follow-Ups: - a\<newline>Score: 7\<newline>- b''
     = Inr [(''LLM Follow-Ups'', JStr ''Follow-Ups: - a''), (''LLM Score'', JInt 7)]"
    by code_simp
next
  let ?ls = "response_lines text"
  from parse_loop_total [OF parse_inv_init, of ?ls] obtain st
    where st: "parse_loop ?ls ([], None) = Inr st" "parse_inv st" by blast
  from strip_follow_ups_ok [OF st(2)] obtain d
    where d: "strip_follow_ups (fst st) = Inr d"
      "map_of d ''LLM Summary'' = map_of (fst st) ''LLM Summary''"
      "map_of d ''LLM Score'' = map_of (fst st) ''LLM Score''"
      "map_of d ''LLM Follow-Ups''
         = (case fu st of None \<Rightarrow> None | Some v \<Rightarrow> Some (JStr (py_strip (fu_text st))))"
    by blast
  have p: "parse_llm_response text = Inr d"
    by (simp add: parse_llm_response_def st(1) d(1))
  have k: "dom (map_of d) \<subseteq> llm_keys"
    using parse_llm_response_frame [OF p] by (fastforce simp: dom_def)
  have s: "map_of d ''LLM Summary'' = summary_field ?ls"
    using parse_loop_summary [OF parse_inv_init st(1)] d(2)
    by (simp add: summary_field_def split: list.splits)
  have c: "map_of d ''LLM Score'' = score_field ?ls"
    using parse_loop_score [OF parse_inv_init st(1)] d(3)
    by (simp add: score_field_def split: list.splits)
  have a: "map_of d ''LLM Follow-Ups'' = follow_ups_field ?ls"
    using parse_follow_ups_field [OF st(1)] d(4) by simp
  have n: "map_of d ''LLM Follow-Ups'' = None" if "list_all (\<lambda>x. \<not> follow_label x) ?ls"
    using parse_loop_no_label [OF _ _ that st(1)] d(4) by (simp add: fu_def)
  have f: "map_of d ''LLM Follow-Ups'' = Some (JStr (py_strip (joined (l # filter kept_line post))))"
    if "?ls = pre @ l # post" "list_all (\<lambda>x. \<not> follow_label x) pre" "follow_label l"
       "list_all (\<lambda>x. \<not> switches_section x) post" for pre l post
    using parse_loop_follow_ups [OF _ that(2,3,4), of st] st(1) that(1) d(4)
    by (simp add: fu_text_def)
  from p k s c a n f
  show "\<exists>d. parse_llm_response text = Inr d
        \<and> dom (map_of d) \<subseteq> llm_keys
        \<and> map_of d ''LLM Summary'' = summary_field (response_lines text)
        \<and> map_of d ''LLM Score'' = score_field (response_lines text)
        \<and> map_of d ''LLM Follow-Ups'' = follow_ups_field (response_lines text)
        \<and> (list_all (\<lambda>x. \<not> follow_label x) (response_lines text)
              \<longrightarrow> map_of d ''LLM Follow-Ups'' = None)
        \<and> (\<forall>pre l post.
              response_lines text = pre @ l # post
              \<and> list_all (\<lambda>x. \<not> follow_label x) pre \<and> follow_label l
              \<and> list_all (\<lambda>x. \<not> switches_section x) post
              \<longrightarrow> map_of d ''LLM Follow-Ups''
                    = Some (JStr (py_strip (joined (l # filter kept_line post)))))"
    by blast
qed

text \<open>
  C6, as the claim states it, fails: the lines after a \<open>Follow-Ups:\<close> line are not all
  accumulated. A \<open>Summary:\<close> line changes the section, and the line after it is dropped.
\<close>

theorem parse_llm_response_stops_accumulating:
  "parse_llm_response ''Follow-Ups: - a\<newline>Summary: s\<newline>- b''
     = Inr [(''LLM Follow-Ups'', JStr ''Follow-Ups: - a''), (''LLM Summary'', JStr ''s'')]"
  by code_simp

theorem parse_llm_response_fields_witness:
  "(response_lines ''Issues: None\<newline>Score: n/a\<newline>Follow-Ups:\<newline>- visa?\<newline>\<newline>- notice?''
     = [] @ ''Issues: None'' # [''Score: n/a'', ''Follow-Ups:'', ''- visa?'', [], ''- notice?'']
   \<and> list_all (\<lambda>x. \<not> follow_label x) []
   \<and> follow_label ''Issues: None''
   \<and> list_all (\<lambda>x. \<not> switches_section x) [''Score: n/a'', ''Follow-Ups:'', ''- visa?'', [], ''- notice?'']
   \<and> (\<exists>d. parse_llm_response ''Issues: None\<newline>Score: n/a\<newline>Follow-Ups:\<newline>- visa?\<newline>\<newline>- notice?'' = Inr d
        \<and> map_of d ''LLM Summary'' = None \<and> map_of d ''LLM Score'' = None
        \<and> map_of d ''LLM Follow-Ups''
            = Some (JStr ''Issues: None\<newline>Follow-Ups:\<newline>- visa?\<newline>- notice?'')))
   \<and> (list_all (\<lambda>x. \<not> follow_label x) (response_lines ''Score: 9\<newline>- a\<newline>Summary: Fine '')
      \<and> (\<exists>d. parse_llm_response ''Score: 9\<newline>- a\<newline>Summary: Fine '' = Inr d
        \<and> map_of d ''LLM Summary'' = Some (JStr ''Fine'') \<and> map_of d ''LLM Score'' = Some (JInt 9)
        \<and> map_of d ''LLM Follow-Ups'' = None))
   \<and> (\<exists>d. parse_llm_response
              ''Issues: x\<newline>Score: 7\<newline>dropped\<newline>Follow-Ups: y\<newline>Score: n/a\<newline>kept\<newline>Summary: s\<newline>lost'' = Inr d
        \<and> map_of d ''LLM Summary'' = Some (JStr ''s'') \<and> map_of d ''LLM Score'' = Some (JInt 7)
        \<and> map_of d ''LLM Follow-Ups'' = Some (JStr ''Issues: x\<newline>Follow-Ups: y\<newline>kept''))"
proof (intro conjI)
  let ?text = "''Issues: None\<newline>Score: n/a\<newline>Follow-Ups:\<newline>- visa?\<newline>\<newline>- notice?''"
  let ?post = "[''Score: n/a'', ''Follow-Ups:'', ''- visa?'', [], ''- notice?'']"
  show 1: "response_lines ?text = [] @ ''Issues: None'' # ?post" by code_simp
  show 2: "list_all (\<lambda>x. \<not> follow_label x) ([] :: string list)" by simp
  show 3: "follow_label ''Issues: None''" by code_simp
  show 4: "list_all (\<lambda>x. \<not> switches_section x) ?post" by code_simp
  have 5: "py_strip (joined (''Issues: None'' # filter kept_line ?post))
            = ''Issues: None\<newline>Follow-Ups:\<newline>- visa?\<newline>- notice?''" by code_simp
  have 6: "summary_field (response_lines ?text) = None" by code_simp
  have 7: "score_field (response_lines ?text) = None" by code_simp
  from parse_llm_response_fields [of ?text] obtain d
    where d: "parse_llm_response ?text = Inr d"
      "map_of d ''LLM Summary'' = summary_field (response_lines ?text)"
      "map_of d ''LLM Score'' = score_field (response_lines ?text)"
      "\<forall>pre l post.
              response_lines ?text = pre @ l # post
              \<and> list_all (\<lambda>x. \<not> follow_label x) pre \<and> follow_label l
              \<and> list_all (\<lambda>x. \<not> switches_section x) post
              \<longrightarrow> map_of d ''LLM Follow-Ups''
                    = Some (JStr (py_strip (joined (l # filter kept_line post))))"
    by blast
  from d(4) 1 2 3 4 have "map_of d ''LLM Follow-Ups''
       = Some (JStr (py_strip (joined (''Issues: None'' # filter kept_line ?post))))"
    by blast
  with d(1,2,3) 5 6 7 show "\<exists>d. parse_llm_response ?text = Inr d
        \<and> map_of d ''LLM Summary'' = None \<and> map_of d ''LLM Score'' = None
        \<and> map_of d ''LLM Follow-Ups''
            = Some (JStr ''Issues: None\<newline>Follow-Ups:\<newline>- visa?\<newline>- notice?'')"
    by auto
next
  let ?text = "''Score: 9\<newline>- a\<newline>Summary: Fine ''"
  show 1: "list_all (\<lambda>x. \<not> follow_label x) (response_lines ?text)" by code_simp
  have 2: "summary_field (response_lines ?text) = Some (JStr ''Fine'')" by code_simp
  have 3: "score_field (response_lines ?text) = Some (JInt 9)" by code_simp
  from parse_llm_response_fields [of ?text] obtain d
    where d: "parse_llm_response ?text = Inr d"
      "map_of d ''LLM Summary'' = summary_field (response_lines ?text)"
      "map_of d ''LLM Score'' = score_field (response_lines ?text)"
      "list_all (\<lambda>x. \<not> follow_label x) (response_lines ?text)
         \<longrightarrow> map_of d ''LLM Follow-Ups'' = None"
    by blast
  with 1 2 3 show "\<exists>d. parse_llm_response ?text = Inr d
        \<and> map_of d ''LLM Summary'' = Some (JStr ''Fine'') \<and> map_of d ''LLM Score'' = Some (JInt 9)
        \<and> map_of d ''LLM Follow-Ups'' = None"
    by auto
next
  let ?text = "''Issues: x\<newline>Score: 7\<newline>dropped\<newline>Follow-Ups: y\<newline>Score: n/a\<newline>kept\<newline>Summary: s\<newline>lost''"
  have 1: "follow_ups_field (response_lines ?text) = Some (JStr ''Issues: x\<newline>Follow-Ups: y\<newline>kept'')"
    by code_simp
  have 2: "summary_field (response_lines ?text) = Some (JStr ''s'')" by code_simp
  have 3: "score_field (response_lines ?text) = Some (JInt 7)" by code_simp
  from parse_llm_response_fields [of ?text] obtain d
    where d: "parse_llm_response ?text = Inr d"
      "map_of d ''LLM Summary'' = summary_field (response_lines ?text)"
      "map_of d ''LLM Score'' = score_field (response_lines ?text)"
      "map_of d ''LLM Follow-Ups'' = follow_ups_field (response_lines ?text)"
    by blast
  with 1 2 3 show "\<exists>d. parse_llm_response ?text = Inr d
        \<and> map_of d ''LLM Summary'' = Some (JStr ''s'') \<and> map_of d ''LLM Score'' = Some (JInt 7)
        \<and> map_of d ''LLM Follow-Ups'' = Some (JStr ''Issues: x\<newline>Follow-Ups: y\<newline>kept'')"
    by auto
qed

subsection \<open>The LLM evaluator\<close>

lemma attempts_list: "[0..<max_retries] = [0, 1, 2]"
  by (simp add: max_retries_def upt_rec)

lemma evaluate_with_llm_guard:
  "has_llm_score applicant_record \<Longrightarrow>
   evaluate_with_llm generate_content applicant_record applicants = ([], applicants)"
  by (simp add: evaluate_with_llm_def)

text \<open>
  C7: when every call of the generation service raises, an evaluation that gets past
  the guard makes exactly three calls, sleeps 1 second after the first failure and 2
  seconds after the second, and returns with the Applicants table as it was.
\<close>

theorem llm_retry_policy:
  assumes "\<not> has_llm_score applicant_record"
    and "\<forall>attempt. generate_content attempt = None"
  shows "evaluate_with_llm generate_content applicant_record applicants
           = ([Generate, Sleep 1, Generate, Sleep 2, Generate], applicants)"
proof -
  have sleeps: "after_failure 0 = [Sleep 1]" "after_failure (Suc 0) = [Sleep 2]"
    "after_failure 2 = []"
    by (simp_all add: after_failure_def max_retries_def)
  from assms show ?thesis
    unfolding evaluate_with_llm_def attempts_list
    by (simp add: sleeps)
qed

theorem llm_retry_policy_witness:
  "\<not> has_llm_score \<lparr>rec_id = ''recA'', rec_fields = [(''Applicant ID'', JStr ''4'')]\<rparr>
   \<and> (\<forall>attempt. (\<lambda>n::nat. None :: string option) attempt = None)
   \<and> evaluate_with_llm (\<lambda>n. None) \<lparr>rec_id = ''recA'', rec_fields = [(''Applicant ID'', JStr ''4'')]\<rparr>
        [\<lparr>rec_id = ''recA'', rec_fields = [(''Applicant ID'', JStr ''4'')]\<rparr>]
      = ([Generate, Sleep 1, Generate, Sleep 2, Generate],
         [\<lparr>rec_id = ''recA'', rec_fields = [(''Applicant ID'', JStr ''4'')]\<rparr>])"
proof -
  have g: "\<not> has_llm_score \<lparr>rec_id = ''recA'', rec_fields = [(''Applicant ID'', JStr ''4'')]\<rparr>"
    by (simp add: has_llm_score_def)
  have n: "\<forall>attempt. (\<lambda>n::nat. None :: string option) attempt = None"
    by simp
  from g n llm_retry_policy [OF g n] show ?thesis by (intro conjI)
qed

text \<open>
  C8 does not hold of the code: the guard tests the truth value of the score, and the
  score 0 is not null but false. A record that carries the score 0 is evaluated again:
  the service is called and the record is written.
\<close>

theorem evaluate_with_llm_zero_score:
  "map_of (rec_fields \<lparr>rec_id = ''recA'',
             rec_fields = [(''Applicant ID'', JStr ''4''), (''LLM Score'', JInt 0)]\<rparr>)
       ''LLM Score'' = Some (JInt 0)
   \<and> evaluate_with_llm (\<lambda>n. Some ''Summary: Thin profile\<newline>Score: 3'')
        \<lparr>rec_id = ''recA'',
           rec_fields = [(''Applicant ID'', JStr ''4''), (''LLM Score'', JInt 0)]\<rparr>
        [\<lparr>rec_id = ''recA'',
            rec_fields = [(''Applicant ID'', JStr ''4''), (''LLM Score'', JInt 0)]\<rparr>]
      = ([Generate],
         [\<lparr>rec_id = ''recA'',
             rec_fields = [(''Applicant ID'', JStr ''4''), (''LLM Score'', JInt 3),
                           (''LLM Summary'', JStr ''Thin profile'')]\<rparr>])"
  by code_simp

subsection \<open>Decompression and the round trip\<close>





































































subsection \<open>Examples of decompression\<close>






end
